theory Spec2Isabelle
  imports Complex_Main "HOL-Library.Word"
begin

unbundle bit_operations_syntax

section \<open>BirdGate: gate, framer, reconnecting reader, classifier clients, window logs\<close>

text \<open>
  Python floats are modelled as HOL reals throughout: comparisons, doubling, \<open>min\<close>,
  \<open>max\<close> and division by a power of two are then exactly what the code computes on
  finite values; NaN and rounding are outside the model.
\<close>

subsection \<open>config.py\<close>

record GatingThresholds =
  min_overall_rms_db :: real
  min_bird_snr_db :: real

record StreamConfig =
  name :: string
  url :: string
  sample_rate :: int
  window_size_seconds :: real
  channels :: int

record FrequencyBand =
  low :: real
  high :: real


text \<open>Python exceptions that the modelled code can raise or catch.\<close>

datatype error = ValueError | TypeError | AttributeError | KeyError | OSError
  | ZeroDivisionError | RequestException | JSONDecodeError | TimeoutExpired
  | IntegrityError | OperationalError | InterfaceError

subsection \<open>features.py\<close>

record AudioFeatures =
  rms_total_db :: real
  rms_bird_band_db :: real
  rms_low_band_db :: real
  snr_bird_db :: real

text \<open>\<open>_db_from_rms\<close>, and its default floor \<open>1e-10\<close>.\<close>

definition db_from_rms :: "real \<Rightarrow> real \<Rightarrow> real" where
  "db_from_rms r floor_rms = 20 * log 10 (max r floor_rms)"

definition default_floor :: real where
  "default_floor = 1 / 10 ^ 10"

text \<open>\<open>_rms\<close>: zero on an empty array, else \<open>sqrt(mean(samples ** 2))\<close>.\<close>

definition rms :: "real list \<Rightarrow> real" where
  "rms samples =
     (if length samples = 0 then 0
      else sqrt (sum_list (map (\<lambda>x. x ^ 2) samples) / real (length samples)))"

text \<open>
  \<open>_bandpass_filter\<close>. The parameter \<open>sosfilt_butter\<close> stands for scipy's
  \<open>sosfilt(butter(order, [low, high], btype="band", output="sos"), samples)\<close>, with
  \<open>None\<close> when either call raises (the code then returns the samples unfiltered). A
  zero sample rate makes the division by the Nyquist frequency raise.
\<close>

definition bandpass_filter ::
  "(nat \<Rightarrow> real \<Rightarrow> real \<Rightarrow> real list \<Rightarrow> real list option)
   \<Rightarrow> real list \<Rightarrow> int \<Rightarrow> real \<Rightarrow> real \<Rightarrow> nat \<Rightarrow> error + real list" where
  "bandpass_filter sosfilt_butter samples rate low_freq high_freq order =
     (let nyquist = real_of_int rate / 2 in
      if nyquist = 0 then Inl ZeroDivisionError
      else
        let low = max (low_freq / nyquist) (1 / 1000);
            high = min (high_freq / nyquist) (999 / 1000)
        in
          if low \<ge> high then Inr samples
          else
            case sosfilt_butter order low high samples of
              Some filtered \<Rightarrow> Inr filtered
            | None \<Rightarrow> Inr samples)"

text \<open>\<open>FeatureExtractor.extract\<close>; the extractor's fields \<open>sample_rate\<close>, \<open>bird_band\<close> and
  \<open>low_band\<close> are the next three arguments.\<close>

definition "extract" ::
  "(nat \<Rightarrow> real \<Rightarrow> real \<Rightarrow> real list \<Rightarrow> real list option)
   \<Rightarrow> int \<Rightarrow> FrequencyBand \<Rightarrow> FrequencyBand \<Rightarrow> real list \<Rightarrow> error + AudioFeatures" where
  "extract sosfilt_butter rate bird_band low_band samples =
     (let rms_total = rms samples;
          rms_total_db = db_from_rms rms_total default_floor
      in
        case bandpass_filter sosfilt_butter samples rate (low bird_band) (high bird_band) 4 of
          Inl e \<Rightarrow> Inl e
        | Inr bird_filtered \<Rightarrow>
            let rms_bird = rms bird_filtered;
                rms_bird_band_db = db_from_rms rms_bird default_floor
            in
              case bandpass_filter sosfilt_butter samples rate (low low_band) (high low_band) 4 of
                Inl e \<Rightarrow> Inl e
              | Inr low_filtered \<Rightarrow>
                  let rms_low = rms low_filtered;
                      rms_low_band_db = db_from_rms rms_low default_floor;
                      snr_bird_db = rms_bird_band_db - rms_low_band_db
                  in
                    Inr \<lparr>rms_total_db = rms_total_db,
                         rms_bird_band_db = rms_bird_band_db,
                         rms_low_band_db = rms_low_band_db,
                         snr_bird_db = snr_bird_db\<rparr>)"

subsection \<open>gate.py\<close>

datatype GateDecision = SILENCE | TRASH | SEND_TO_BIRDNET

record GateResult =
  decision :: GateDecision
  reason :: string

text \<open>
  \<open>AudioGate.evaluate\<close>. The parameter \<open>fmt\<close> stands for Python's \<open>f"{x:.1f}"\<close>
  formatting of a float; the thresholds are the gate object's only field.
\<close>

definition evaluate :: "(real \<Rightarrow> string) \<Rightarrow> GatingThresholds \<Rightarrow> AudioFeatures \<Rightarrow> GateResult" where
  "evaluate fmt thresholds features =
     (if rms_total_db features < min_overall_rms_db thresholds then
        \<lparr>decision = SILENCE,
         reason = ''RMS '' @ fmt (rms_total_db features) @ '' dB < threshold ''
                  @ fmt (min_overall_rms_db thresholds) @ '' dB''\<rparr>
      else if snr_bird_db features < min_bird_snr_db thresholds then
        \<lparr>decision = TRASH,
         reason = ''Bird SNR '' @ fmt (snr_bird_db features) @ '' dB < threshold ''
                  @ fmt (min_bird_snr_db thresholds) @ '' dB''\<rparr>
      else
        \<lparr>decision = SEND_TO_BIRDNET,
         reason = ''RMS '' @ fmt (rms_total_db features) @ '' dB, Bird SNR ''
                  @ fmt (snr_bird_db features) @ '' dB''\<rparr>)"

subsection \<open>rtsp\_reader.py: one window\<close>

record AudioWindow =
  samples :: "real list"
  timestamp :: nat
  stream_name :: string
  sample_rate :: int
  duration_seconds :: real

text \<open>
  The decoder subprocess as the reader sees it: \<open>poll\<close> is what \<open>poll()\<close> returns
  (\<open>None\<close> while the process runs), \<open>stdout\<close> the bytes its pipe can still deliver.
\<close>

record Process =
  poll :: "int option"
  stdout :: "8 word list"

text \<open>Python's \<open>int(x)\<close> on a float truncates towards zero.\<close>

definition py_int :: "real \<Rightarrow> int" where
  "py_int x = (if 0 \<le> x then \<lfloor>x\<rfloor> else \<lceil>x\<rceil>)"

text \<open>
  \<open>stdout.read(n)\<close>: at most \<open>n\<close> bytes, fewer when the pipe has fewer; a negative
  \<open>n\<close> reads everything. The result is the data and what stays in the pipe.
\<close>

definition stdout_read :: "int \<Rightarrow> 8 word list \<Rightarrow> 8 word list \<times> 8 word list" where
  "stdout_read n pipe =
     (if n < 0 then (pipe, []) else (take (nat n) pipe, drop (nat n) pipe))"

text \<open>
  \<open>np.frombuffer(raw, dtype=np.int16)\<close> on a little-endian machine: two bytes per
  sample, low byte first; a buffer of odd length raises \<open>ValueError\<close>.
\<close>

fun frombuffer_int16 :: "8 word list \<Rightarrow> error + 16 word list" where
  "frombuffer_int16 [] = Inr []"
| "frombuffer_int16 [b] = Inl ValueError"
| "frombuffer_int16 (lo # hi # rest) =
     (case frombuffer_int16 rest of
        Inl e \<Rightarrow> Inl e
      | Inr ws \<Rightarrow> Inr ((push_bit 8 (ucast hi) OR ucast lo) # ws))"

text \<open>\<open>samples_int16.astype(np.float32) / 32768.0\<close>.\<close>

definition normalize :: "16 word list \<Rightarrow> real list" where
  "normalize ws = map (\<lambda>w. real_of_int (sint w) / 32768) ws"

text \<open>
  \<open>samples.reshape(-1, c).mean(axis=1)\<close> for \<open>c > 1\<close>: consecutive frames of
  \<open>c\<close> samples, each replaced by its mean; \<open>reshape\<close> raises \<open>ValueError\<close> when
  the length is not a multiple of \<open>c\<close>.
\<close>

fun frame_means :: "nat \<Rightarrow> real list \<Rightarrow> real list" where
  "frame_means c xs =
     (if c = 0 \<or> xs = [] then []
      else (sum_list (take c xs) / real c) # frame_means c (drop c xs))"

declare frame_means.simps [simp del]

definition reshape_mean :: "nat \<Rightarrow> real list \<Rightarrow> error + real list" where
  "reshape_mean c xs =
     (if length xs mod c \<noteq> 0 then Inl ValueError else Inr (frame_means c xs))"

text \<open>
  \<open>RTSPReader._read_window\<close>. \<open>now\<close> is the clock read by \<open>datetime.now\<close>; the
  process is returned with the bytes consumed.
\<close>

definition read_window ::
  "StreamConfig \<Rightarrow> nat \<Rightarrow> Process option \<Rightarrow> (error + AudioWindow option) \<times> Process option" where
  "read_window config now process =
     (case process of
        None \<Rightarrow> (Inr None, process)
      | Some p \<Rightarrow>
          if poll p \<noteq> None then (Inr None, process)
          else
            let samples_per_window =
                  py_int (real_of_int (StreamConfig.sample_rate config) * window_size_seconds config);
                bytes_per_sample = 2;
                bytes_needed = samples_per_window * channels config * bytes_per_sample;
                (raw_data, rest) = stdout_read bytes_needed (stdout p);
                process' = Some (p\<lparr>stdout := rest\<rparr>)
            in
              if int (length raw_data) < bytes_needed then (Inr None, process')
              else
                case frombuffer_int16 raw_data of
                  Inl e \<Rightarrow> (Inl e, process')
                | Inr samples_int16 \<Rightarrow>
                    let samples0 = normalize samples_int16 in
                    case (if channels config > 1
                          then reshape_mean (nat (channels config)) samples0
                          else Inr samples0) of
                      Inl e \<Rightarrow> (Inl e, process')
                    | Inr samples1 \<Rightarrow>
                        (Inr (Some \<lparr>samples = samples1,
                                     timestamp = now,
                                     stream_name = name config,
                                     sample_rate = StreamConfig.sample_rate config,
                                     duration_seconds = window_size_seconds config\<rparr>),
                         process'))"

subsection \<open>rtsp\_reader.py: the reconnecting loop\<close>

text \<open>
  What \<open>stream_windows\<close> does that an observer sees: windows yielded, delays slept, and
  an exception leaving the generator.
\<close>

datatype action = Yield AudioWindow | Sleep real | Raised error

text \<open>
  One pass of the outer \<open>while\<close> loop as the environment drives it.
  \<open>running_start\<close> is \<open>self._running\<close> at the outer \<open>while\<close> test,
  \<open>spawn\<close> what \<open>_start_ffmpeg\<close> returns (\<open>None\<close> when \<open>Popen\<close> raises),
  \<open>reads\<close> has one entry per pass of the inner loop (\<open>self._running\<close> at the inner
  \<open>while\<close> test and the clock of that read), and \<open>running_after\<close> is
  \<open>self._running\<close> at the test before the sleep. A round whose \<open>reads\<close> run out
  while the decoder still delivers windows ends the observation.
\<close>

record Round =
  running_start :: bool
  spawn :: "Process option"
  reads :: "(bool \<times> nat) list"
  running_after :: bool

datatype inner_exit = Left_loop | Observation_ends

text \<open>
  The inner loop: \<open>while self._running: window = self._read_window(); if window is None:
  break; yield window\<close>. An exception of \<open>_read_window\<close> is caught by the
  \<open>except Exception\<close> of the outer loop body, which leaves the inner loop as well.
\<close>

fun inner_loop ::
  "StreamConfig \<Rightarrow> Process option \<Rightarrow> (bool \<times> nat) list \<Rightarrow> AudioWindow list \<times> inner_exit" where
  "inner_loop config process [] = ([], Observation_ends)"
| "inner_loop config process ((running, now) # rest) =
     (if \<not> running then ([], Left_loop)
      else
        case read_window config now process of
          (Inl e, process') \<Rightarrow> ([], Left_loop)
        | (Inr None, process') \<Rightarrow> ([], Left_loop)
        | (Inr (Some window), process') \<Rightarrow>
            (case inner_loop config process' rest of
               (windows, ex) \<Rightarrow> (window # windows, ex)))"

text \<open>
  The tail of the outer loop body: \<open>if self._running: time.sleep(current_delay);
  current_delay = min(current_delay * 2, self.max_reconnect_delay)\<close>, given what the rest
  of the loop does from the new delay. \<open>time.sleep\<close> raises \<open>ValueError\<close> on a negative
  delay.
\<close>

definition backoff ::
  "real \<Rightarrow> bool \<Rightarrow> real \<Rightarrow> (real \<Rightarrow> action list) \<Rightarrow> action list" where
  "backoff max_reconnect_delay running current_delay continue =
     (if running then
        if current_delay < 0 then [Raised ValueError]
        else Sleep current_delay # continue (min (current_delay * 2) max_reconnect_delay)
      else [])"

text \<open>The outer loop of \<open>stream_windows\<close>, from a given \<open>current_delay\<close>.\<close>

fun stream_loop ::
  "StreamConfig \<Rightarrow> real \<Rightarrow> real \<Rightarrow> real \<Rightarrow> Round list \<Rightarrow> action list" where
  "stream_loop config reconnect_delay max_reconnect_delay current_delay [] = []"
| "stream_loop config reconnect_delay max_reconnect_delay current_delay (r # rounds) =
     (if \<not> running_start r then []
      else
        case spawn r of
          None \<Rightarrow>
            backoff max_reconnect_delay (running_after r) current_delay
              (\<lambda>d. stream_loop config reconnect_delay max_reconnect_delay d rounds)
        | Some p \<Rightarrow>
            (case inner_loop config (Some p) (reads r) of
               (windows, Observation_ends) \<Rightarrow> map Yield windows
             | (windows, Left_loop) \<Rightarrow>
                 map Yield windows @
                 backoff max_reconnect_delay (running_after r) reconnect_delay
                   (\<lambda>d. stream_loop config reconnect_delay max_reconnect_delay d rounds)))"

text \<open>\<open>RTSPReader.stream_windows\<close>: \<open>current_delay = self.reconnect_delay\<close>, then the loop.\<close>

definition stream_windows :: "StreamConfig \<Rightarrow> real \<Rightarrow> real \<Rightarrow> Round list \<Rightarrow> action list" where
  "stream_windows config reconnect_delay max_reconnect_delay rounds =
     stream_loop config reconnect_delay max_reconnect_delay reconnect_delay rounds"

text \<open>A round in which the decoder cannot be spawned and nobody stops the reader.\<close>

definition failed_round :: Round where
  "failed_round = \<lparr>running_start = True, spawn = None, reads = [], running_after = True\<rparr>"

text \<open>
  A round in which the decoder is spawned but its stream is already at end of file (an
  unreachable or ended source): the first read comes back short.
\<close>

definition eof_round :: Round where
  "eof_round = \<lparr>running_start = True, spawn = Some \<lparr>poll = None, stdout = []\<rparr>,
                 reads = [(True, 0)], running_after = True\<rparr>"

text \<open>The delays a trace sleeps, in order.\<close>

definition slept :: "action list \<Rightarrow> real list" where
  "slept as = concat (map (\<lambda>a. case a of Sleep d \<Rightarrow> [d] | _ \<Rightarrow> []) as)"

subsection \<open>Python values and the operations the clients use on them\<close>

text \<open>
  What \<open>json.load\<close> and \<open>response.json()\<close> return: a dict is an association list
  read with \<open>map_of\<close>, a number is a real.
\<close>

datatype json = JNull | JBool bool | JNum real | JStr string
  | JList "json list" | JObj "(string \<times> json) list"









subsection \<open>birdnet\_client.py\<close>

record Detection =
  species :: json
  confidence :: real
  start_time :: real
  end_time :: real





















text \<open>Largest first.\<close>

definition sorted_desc :: "real list \<Rightarrow> bool" where
  "sorted_desc xs = sorted_wrt (\<lambda>a b. a \<ge> b) xs"


subsection \<open>jsonl\_log.py\<close>

text \<open>\<open>GateDecision.value\<close>.\<close>

fun decision_value :: "GateDecision \<Rightarrow> string" where
  "decision_value SILENCE = ''SILENCE''"
| "decision_value TRASH = ''TRASH''"
| "decision_value SEND_TO_BIRDNET = ''SEND_TO_BIRDNET''"

text \<open>
  The storage object and its file. \<open>lines\<close> is \<open>None\<close> while the path does not exist;
  a line is \<open>Some v\<close> when \<open>json.loads\<close> gives \<open>v\<close> on it and \<open>None\<close> when it raises
  \<open>JSONDecodeError\<close>. A line written by \<open>json.dumps\<close> is read back as the value written.
\<close>

record JSONLStorage =
  lines :: "json option list option"
  site_id :: string
  window_id :: nat


text \<open>The dict that \<open>log_window\<close> builds for one detection.\<close>

definition detection_json :: "Detection \<Rightarrow> json" where
  "detection_json d =
     JObj [(''species'', species d), (''confidence'', JNum (confidence d)),
           (''start_time'', JNum (start_time d)), (''end_time'', JNum (end_time d))]"

text \<open>
  \<open>JSONLStorage.log_window\<close>. \<open>isoformat\<close> stands for \<open>timestamp.isoformat()\<close>;
  \<open>write_ok\<close> tells whether opening and appending to the file succeeds. The counter is
  advanced before the write.
\<close>

definition jsonl_log_window ::
  "(nat \<Rightarrow> string) \<Rightarrow> bool \<Rightarrow> JSONLStorage \<Rightarrow> nat \<Rightarrow> string \<Rightarrow> AudioFeatures \<Rightarrow> GateDecision
   \<Rightarrow> string \<Rightarrow> Detection list option \<Rightarrow> (error + nat) \<times> JSONLStorage" where
  "jsonl_log_window isoformat write_ok storage ts stream features dec why dets =
     (let storage1 = storage\<lparr>window_id := window_id storage + 1\<rparr>;
          record_json = JObj
            [(''id'', JNum (real (window_id storage1))),
             (''timestamp'', JStr (isoformat ts)),
             (''site_id'', JStr (site_id storage1)),
             (''stream_name'', JStr stream),
             (''features'', JObj
                [(''rms_total_db'', JNum (rms_total_db features)),
                 (''rms_bird_band_db'', JNum (rms_bird_band_db features)),
                 (''rms_low_band_db'', JNum (rms_low_band_db features)),
                 (''snr_bird_db'', JNum (snr_bird_db features))]),
             (''decision'', JStr (decision_value dec)),
             (''reason'', JStr why),
             (''detections'', JList (map detection_json
                (case dets of None \<Rightarrow> [] | Some ds \<Rightarrow> ds)))]
      in
        if \<not> write_ok then (Inl OSError, storage1)
        else
          (Inr (window_id storage1),
           storage1\<lparr>lines := Some ((case lines storage1 of None \<Rightarrow> [] | Some ls \<Rightarrow> ls)
                                      @ [Some record_json])\<rparr>))"









subsection \<open>sqlite\_log.py\<close>

text \<open>
  The two tables with their columns, and the database file: its rows and the two
  \<open>AUTOINCREMENT\<close> counters, which SQLite keeps in the file and changes inside the
  transaction like any row.
\<close>

record WindowRow =
  w_id :: nat
  w_timestamp :: string
  w_site_id :: string
  w_stream_name :: string
  w_rms_total_db :: real
  w_rms_bird_band_db :: real
  w_rms_low_band_db :: real
  w_snr_bird_db :: real
  w_decision :: string
  w_reason :: string

record DetectionRow =
  d_id :: nat
  d_window_id :: nat
  d_species :: json
  d_confidence :: real
  d_start_time :: real
  d_end_time :: real

record Database =
  windows :: "WindowRow list"
  detections :: "DetectionRow list"
  windows_seq :: nat
  detections_seq :: nat

text \<open>
  An open connection: the file as committed, and the file as this connection sees it with
  the changes of its open transaction.
\<close>

record Connection =
  committed :: Database
  working :: Database

text \<open>
  What can go wrong outside the program's control: \<open>connect_fault\<close> makes
  \<open>sqlite3.connect\<close> raise, \<open>execute_fault k\<close> makes the \<open>k\<close>-th \<open>execute\<close> of the
  connection raise (disk, lock), \<open>commit_fault\<close> and \<open>rollback_fault\<close> make
  \<open>commit\<close> and \<open>rollback\<close> raise.
\<close>

record SqlEnv =
  connect_fault :: "error option"
  execute_fault :: "nat \<Rightarrow> error option"
  commit_fault :: "error option"
  rollback_fault :: "error option"





text \<open>
  \<open>SQLiteStorage._connection\<close> around the block of a \<open>with\<close>: connect, run the block,
  then \<open>commit\<close>; on any exception of the block or of \<open>commit\<close>, \<open>rollback\<close> and raise again; \<open>close\<close> in
  every case, which drops what was not committed (\<open>close\<close> itself is taken to
  succeed). The result is what the caller gets and the database file afterwards.
\<close>

definition connection ::
  "SqlEnv \<Rightarrow> Database \<Rightarrow> (Connection \<Rightarrow> (error + 'a) \<times> Connection) \<Rightarrow> (error + 'a) \<times> Database" where
  "connection env db block =
     (case connect_fault env of
        Some e \<Rightarrow> (Inl e, db)
      | None \<Rightarrow>
          let rollback_and_raise = (\<lambda>e conn.
                (case rollback_fault env of
                   Some e' \<Rightarrow> (Inl e', committed conn)
                 | None \<Rightarrow> (Inl e, committed (conn\<lparr>working := committed conn\<rparr>))))
          in
            case block \<lparr>committed = db, working = db\<rparr> of
              (Inl e, conn) \<Rightarrow> rollback_and_raise e conn
            | (Inr v, conn) \<Rightarrow>
                (case commit_fault env of
                   Some e \<Rightarrow> rollback_and_raise e conn
                 | None \<Rightarrow> (Inr v, committed (conn\<lparr>committed := working conn\<rparr>))))"



text \<open>
  \<open>SQLiteStorage.get_detections_for_window\<close>:
  \<open>SELECT * FROM detections WHERE window_id = ? ORDER BY confidence DESC\<close>. Rows of
  equal confidence are given in insertion order here; SQLite leaves their order open.
\<close>

definition sqlite_get_detections_for_window ::
  "SqlEnv \<Rightarrow> Database \<Rightarrow> nat \<Rightarrow> (error + DetectionRow list) \<times> Database" where
  "sqlite_get_detections_for_window env db wid =
     connection env db (\<lambda>conn.
       (case execute_fault env 0 of
          Some e \<Rightarrow> (Inl e, conn)
        | None \<Rightarrow>
            (Inr (sort_key (\<lambda>r. - d_confidence r)
                    (filter (\<lambda>r. d_window_id r = wid) (detections (working conn)))),
             conn)))"


section \<open>Properties\<close>

subsection \<open>The gate\<close>

text \<open>
  C1. For every feature record and every pair of thresholds, the gate answers SILENCE when
  the overall RMS is below its threshold, otherwise TRASH when the bird-band SNR is below
  its threshold, otherwise SEND_TO_BIRDNET.
\<close>

theorem evaluate_decision:
  "decision (evaluate fmt t f) =
     (if rms_total_db f < min_overall_rms_db t then SILENCE
      else if snr_bird_db f < min_bird_snr_db t then TRASH
      else SEND_TO_BIRDNET)"
  by (simp add: evaluate_def)

subsection \<open>The window framer\<close>

lemma frombuffer_int16_even:
  "even (length bs) \<Longrightarrow> \<exists>ws. frombuffer_int16 bs = Inr ws \<and> 2 * length ws = length bs"
proof (induction bs rule: frombuffer_int16.induct)
  case 1
  then show ?case by simp
next
  case (2 b)
  then show ?case by simp
next
  case (3 lo hi rest)
  then obtain ws where "frombuffer_int16 rest = Inr ws" "2 * length ws = length rest"
    by auto
  then show ?case by simp
qed

lemma frombuffer_int16_length:
  "frombuffer_int16 bs = Inr ws \<Longrightarrow> 2 * length ws = length bs"
  by (induction bs arbitrary: ws rule: frombuffer_int16.induct) (auto split: sum.splits)

lemma sint16_bounds: "- 32768 \<le> sint (w :: 16 word) \<and> sint w \<le> 32767"
  using sint_ge [of w] sint_lt [of w] by simp

lemma normalize_bounds: "x \<in> set (normalize ws) \<Longrightarrow> - 1 \<le> x \<and> x \<le> 1"
proof -
  assume "x \<in> set (normalize ws)"
  then have "x \<in> (\<lambda>w. real_of_int (sint w) / 32768) ` set ws"
    unfolding normalize_def by (simp only: set_map)
  then show ?thesis
  proof (rule imageE)
    fix w :: "16 word"
    assume x: "x = real_of_int (sint w) / 32768"
    have "- 32768 \<le> real_of_int (sint w)" "real_of_int (sint w) \<le> 32767"
      using sint16_bounds [of w] by linarith+
    then show ?thesis unfolding x by simp
  qed
qed

lemma length_normalize: "length (normalize ws) = length ws"
  by (simp add: normalize_def)

lemma sum_list_bounds:
  fixes xs :: "real list"
  assumes "\<forall>x \<in> set xs. - 1 \<le> x \<and> x \<le> 1"
  shows "- real (length xs) \<le> sum_list xs \<and> sum_list xs \<le> real (length xs)"
  using assms by (induction xs) auto

lemma frame_means_stop: "c = 0 \<or> xs = [] \<Longrightarrow> frame_means c xs = []"
  by (subst frame_means.simps) simp

lemma frame_means_step:
  "0 < c \<Longrightarrow> xs \<noteq> [] \<Longrightarrow>
   frame_means c xs = (sum_list (take c xs) / real c) # frame_means c (drop c xs)"
  by (subst frame_means.simps) simp

lemma frame_means_length:
  "0 < c \<Longrightarrow> length xs = n * c \<Longrightarrow> length (frame_means c xs) = n"
proof (induction n arbitrary: xs)
  case 0
  then show ?case by (simp add: frame_means_stop)
next
  case (Suc n)
  then have ne: "xs \<noteq> []" by auto
  have "length (drop c xs) = n * c" using Suc.prems by simp
  then have "length (frame_means c (drop c xs)) = n" using Suc.IH Suc.prems(1) by blast
  then show ?case using ne Suc.prems(1) by (simp add: frame_means_step)
qed

lemma frame_means_bounds:
  assumes "\<forall>x \<in> set xs. - 1 \<le> x \<and> x \<le> 1"
  shows "\<forall>y \<in> set (frame_means c xs). - 1 \<le> y \<and> y \<le> 1"
  using assms
proof (induction c xs rule: frame_means.induct)
  case (1 c xs)
  show ?case
  proof (cases "c = 0 \<or> xs = []")
    case True
    then show ?thesis by (simp add: frame_means_stop)
  next
    case False
    then have c: "0 < c" and ne: "xs \<noteq> []" by auto
    have tk: "\<forall>x \<in> set (take c xs). - 1 \<le> x \<and> x \<le> 1"
      using "1.prems" by (meson in_set_takeD)
    have dr: "\<forall>x \<in> set (drop c xs). - 1 \<le> x \<and> x \<le> 1"
      using "1.prems" by (meson in_set_dropD)
    have len: "real (length (take c xs)) \<le> real c" by simp
    have sb: "- real c \<le> sum_list (take c xs) \<and> sum_list (take c xs) \<le> real c"
      using sum_list_bounds [OF tk] len by linarith
    have hd_ok: "- 1 \<le> sum_list (take c xs) / real c \<and> sum_list (take c xs) / real c \<le> 1"
      using sb c by (simp add: field_simps)
    have tl_ok: "\<forall>y \<in> set (frame_means c (drop c xs)). - 1 \<le> y \<and> y \<le> 1"
      using "1.IH" [OF False dr] .
    have "frame_means c xs = (sum_list (take c xs) / real c) # frame_means c (drop c xs)"
      using c ne by (rule frame_means_step)
    then show ?thesis using hd_ok tl_ok by simp
  qed
qed


lemma py_int_nonneg: "0 \<le> x \<Longrightarrow> py_int x = \<lfloor>x\<rfloor>"
  by (simp add: py_int_def)

lemma read_window_full:
  assumes alive: "poll p = None"
    and ch: "1 \<le> channels config"
    and sr: "0 < StreamConfig.sample_rate config"
    and ws: "0 < window_size_seconds config"
    and full: "2 * py_int (real_of_int (StreamConfig.sample_rate config) * window_size_seconds config)
                 * channels config \<le> int (length (stdout p))"
  shows "\<exists>w p'. read_window config now (Some p) = (Inr (Some w), Some p')
           \<and> int (length (samples w))
               = py_int (real_of_int (StreamConfig.sample_rate config) * window_size_seconds config)
           \<and> (\<forall>x \<in> set (samples w). - 1 \<le> x \<and> x \<le> 1)"
proof -
  define spw where
    "spw = py_int (real_of_int (StreamConfig.sample_rate config) * window_size_seconds config)"
  define c where "c = nat (channels config)"
  define n where "n = nat spw"
  have spw0: "0 \<le> spw"
    using sr ws unfolding spw_def by (simp add: py_int_def)
  have cpos: "0 < c" and cint: "channels config = int c" using ch by (simp_all add: c_def)
  have nint: "spw = int n" using spw0 by (simp add: n_def)
  define raw where "raw = take (2 * n * c) (stdout p)"
  have bn: "spw * channels config * 2 = int (2 * n * c)"
    by (simp add: nint cint)
  have rd: "stdout_read (spw * channels config * 2) (stdout p) = (raw, drop (2 * n * c) (stdout p))"
  proof -
    have "\<not> int (2 * n * c) < 0" by linarith
    then show ?thesis unfolding bn stdout_read_def raw_def by (simp only: if_False nat_int)
  qed
  have "int (2 * n * c) \<le> int (length (stdout p))"
    using full unfolding spw_def [symmetric] bn [symmetric] by (simp add: mult.commute mult.left_commute)
  then have "2 * n * c \<le> length (stdout p)" by linarith
  then have lraw: "length raw = 2 * (n * c)" by (simp add: raw_def)
  then obtain wds where wds: "frombuffer_int16 raw = Inr wds" "2 * length wds = length raw"
    using frombuffer_int16_even [of raw] by auto
  then have lw: "length (normalize wds) = n * c" using lraw by (simp add: length_normalize)
  have nb: "\<forall>x \<in> set (normalize wds). - 1 \<le> x \<and> x \<le> 1"
    using normalize_bounds by blast
  define out where "out = (if 1 < c then frame_means c (normalize wds) else normalize wds)"
  have sel: "(if channels config > 1 then reshape_mean (nat (channels config)) (normalize wds)
              else Inr (normalize wds)) = Inr out"
    using lw by (simp add: reshape_mean_def out_def cint)
  have lout: "length out = n"
  proof (cases "1 < c")
    case True
    then show ?thesis using frame_means_length [OF cpos lw] by (simp add: out_def)
  next
    case False
    then have "c = 1" using cpos by simp
    then show ?thesis using lw False by (simp add: out_def)
  qed
  have bout: "\<forall>x \<in> set out. - 1 \<le> x \<and> x \<le> 1"
    using nb frame_means_bounds [OF nb, of c] by (simp add: out_def)
  have notshort: "\<not> int (length raw) < spw * channels config * 2"
    unfolding bn using lraw by simp
  have "read_window config now (Some p) =
          (Inr (Some \<lparr>samples = out, timestamp = now, stream_name = name config,
                       sample_rate = StreamConfig.sample_rate config,
                       duration_seconds = window_size_seconds config\<rparr>),
           Some (p\<lparr>stdout := drop (2 * n * c) (stdout p)\<rparr>))"
    unfolding read_window_def
    using alive rd notshort wds(1) sel
    by (simp add: Let_def spw_def [symmetric])
  then show ?thesis using lout bout nint spw_def by auto
qed


lemma read_window_produced:
  assumes ch: "1 \<le> channels config"
    and sr: "0 < StreamConfig.sample_rate config"
    and ws: "0 < window_size_seconds config"
    and res: "read_window config now process = (Inr (Some w), process')"
  shows "int (length (samples w))
           = py_int (real_of_int (StreamConfig.sample_rate config) * window_size_seconds config)
         \<and> (\<forall>x \<in> set (samples w). - 1 \<le> x \<and> x \<le> 1)"
proof -
  define spw where
    "spw = py_int (real_of_int (StreamConfig.sample_rate config) * window_size_seconds config)"
  have spw0: "0 \<le> spw"
    using sr ws unfolding spw_def by (simp add: py_int_def)
  obtain p where p: "process = Some p"
    using res by (cases process) (simp_all add: read_window_def)
  have alive: "poll p = None"
    using res unfolding p read_window_def by (cases "poll p") simp_all
  have bn0: "\<not> spw * channels config * 2 < 0"
    using spw0 ch by (simp add: mult_less_0_iff)
  have notshort: "\<not> int (length (take (nat (spw * channels config * 2)) (stdout p)))
                    < spw * channels config * 2"
    using res alive bn0 unfolding p read_window_def stdout_read_def spw_def [symmetric]
    by (auto simp: Let_def split: if_splits)
  then have "2 * spw * channels config \<le> int (length (stdout p))"
    by (simp add: mult.commute mult.left_commute)
  from read_window_full [OF alive ch sr ws this [unfolded spw_def], of now]
  show ?thesis using res unfolding p by auto
qed

text \<open>
  C2 (as the code has it). The sample count is \<open>int(sample_rate * window_size_seconds)\<close>,
  a truncation and not a rounding: with a valid stream configuration (positive sample rate
  and window size, at least one channel), a read that delivers all the requested bytes from
  a running decoder yields a window, and every window the framer yields has exactly that
  many mono samples, each in \<open>[-1, 1]\<close>; frames of several channels are averaged.
\<close>

theorem read_window_samples:
  assumes "1 \<le> channels config"
    and "0 < StreamConfig.sample_rate config"
    and "0 < window_size_seconds config"
  shows "(poll p = None
            \<and> 2 * py_int (real_of_int (StreamConfig.sample_rate config) * window_size_seconds config)
                  * channels config \<le> int (length (stdout p))
          \<longrightarrow> (\<exists>w p'. read_window config now (Some p) = (Inr (Some w), Some p')))
       \<and> (\<forall>process w process'.
            read_window config now process = (Inr (Some w), process')
            \<longrightarrow> int (length (samples w))
                  = \<lfloor>real_of_int (StreamConfig.sample_rate config) * window_size_seconds config\<rfloor>
                \<and> (\<forall>x \<in> set (samples w). - 1 \<le> x \<and> x \<le> 1))"
proof (intro conjI impI allI)
  assume "poll p = None
            \<and> 2 * py_int (real_of_int (StreamConfig.sample_rate config) * window_size_seconds config)
                  * channels config \<le> int (length (stdout p))"
  then show "\<exists>w p'. read_window config now (Some p) = (Inr (Some w), Some p')"
    using read_window_full [OF _ assms, of p now] by blast
next
  fix process w process'
  assume res: "read_window config now process = (Inr (Some w), process')"
  have nn: "0 \<le> real_of_int (StreamConfig.sample_rate config) * window_size_seconds config"
    using assms(2,3) by simp
  show "int (length (samples w))
          = \<lfloor>real_of_int (StreamConfig.sample_rate config) * window_size_seconds config\<rfloor>"
    using read_window_produced [OF assms res] py_int_nonneg [OF nn] by simp
  show "\<forall>x \<in> set (samples w). - 1 \<le> x \<and> x \<le> 1"
    using read_window_produced [OF assms res] by blast
qed

theorem read_window_samples_witness:
  "\<exists>w p'. read_window \<lparr>name = ''yard'', url = ''rtsp://cam/1'', sample_rate = 7,
                           window_size_seconds = 1 / 4, channels = 2\<rparr> 5
               (Some \<lparr>poll = None, stdout = [0, 128, 255, 127, 1, 0]\<rparr>) = (Inr (Some w), p')
          \<and> int (length (samples w)) = 1
          \<and> (\<forall>x \<in> set (samples w). - 1 \<le> x \<and> x \<le> 1)"
proof -
  let ?cfg = "\<lparr>name = ''yard'', url = ''rtsp://cam/1'', sample_rate = 7,
               window_size_seconds = 1 / 4, channels = 2\<rparr>"
  let ?p = "\<lparr>poll = None, stdout = [0, 128, 255, 127, 1, 0 :: 8 word]\<rparr>"
  have h1: "1 \<le> channels ?cfg" by simp
  have h2: "0 < StreamConfig.sample_rate ?cfg" by simp
  have h3: "0 < window_size_seconds ?cfg" by simp
  have fl: "\<lfloor>real_of_int (StreamConfig.sample_rate ?cfg) * window_size_seconds ?cfg\<rfloor> = 1"
    by simp
  have full: "poll ?p = None
      \<and> 2 * py_int (real_of_int (StreamConfig.sample_rate ?cfg) * window_size_seconds ?cfg)
            * channels ?cfg \<le> int (length (stdout ?p))"
    by (simp add: py_int_def)
  from read_window_samples [OF h1 h2 h3, of ?p 5] full
  obtain w p' where r: "read_window ?cfg 5 (Some ?p) = (Inr (Some w), Some p')"
    by blast
  from read_window_samples [OF h1 h2 h3, of ?p 5] r
  have "int (length (samples w))
          = \<lfloor>real_of_int (StreamConfig.sample_rate ?cfg) * window_size_seconds ?cfg\<rfloor>
        \<and> (\<forall>x \<in> set (samples w). - 1 \<le> x \<and> x \<le> 1)"
    by blast
  then show ?thesis using r fl by auto
qed

text \<open>
  The claim as written fails: at 11025 Hz with a window of 0.75 s the product is 8268.75,
  the framer requests and converts 8268 samples, and rounding gives 8269.
\<close>

theorem read_window_round_counterexample:
  "\<exists>w p'. read_window \<lparr>name = ''yard'', url = ''rtsp://cam/1'', sample_rate = 11025,
                           window_size_seconds = 3 / 4, channels = 1\<rparr> 0
               (Some \<lparr>poll = None, stdout = replicate 16536 0\<rparr>) = (Inr (Some w), p')
          \<and> int (length (samples w)) = 8268
          \<and> round (real_of_int 11025 * (3 / 4 :: real)) = 8269"
proof -
  let ?cfg = "\<lparr>name = ''yard'', url = ''rtsp://cam/1'', sample_rate = 11025,
               window_size_seconds = 3 / 4, channels = 1\<rparr>"
  let ?p = "\<lparr>poll = None, stdout = replicate 16536 (0 :: 8 word)\<rparr>"
  have pi: "py_int (real_of_int (StreamConfig.sample_rate ?cfg) * window_size_seconds ?cfg) = 8268"
    by (simp add: py_int_def)
  have "\<exists>w p'. read_window ?cfg 0 (Some ?p) = (Inr (Some w), Some p')
           \<and> int (length (samples w))
               = py_int (real_of_int (StreamConfig.sample_rate ?cfg) * window_size_seconds ?cfg)
           \<and> (\<forall>x \<in> set (samples w). - 1 \<le> x \<and> x \<le> 1)"
    by (rule read_window_full) (simp_all add: py_int_def)
  then obtain w p' where "read_window ?cfg 0 (Some ?p) = (Inr (Some w), Some p')"
    "int (length (samples w)) = 8268"
    unfolding pi by blast
  moreover have "round (real_of_int 11025 * (3 / 4 :: real)) = 8269"
    by (simp add: round_def)
  ultimately show ?thesis by blast
qed

subsection \<open>The reconnecting reader\<close>

lemma slept_simps:
  "slept [] = []"
  "slept (Sleep d # as) = d # slept as"
  "slept (Yield w # as) = slept as"
  "slept (Raised e # as) = slept as"
  "slept (as @ bs) = slept as @ slept bs"
  by (simp_all add: slept_def)

lemma slept_yields: "slept (map Yield ws) = []"
  by (induction ws) (simp_all add: slept_simps)

lemma min_double_cap:
  fixes d mx :: real
  assumes "0 \<le> d" "d \<le> mx"
  shows "min (min (d * 2) mx * 2 ^ k) mx = min (d * 2 ^ Suc k) mx"
proof (cases "d * 2 \<le> mx")
  case True
  then show ?thesis by (simp add: mult.assoc)
next
  case False
  then have big: "mx < d * 2" by simp
  have mx0: "0 \<le> mx" using assms by simp
  have k1: "(1::real) \<le> 2 ^ k" by simp
  have "mx * 1 \<le> mx * 2 ^ k" using k1 mx0 by (rule mult_left_mono)
  then have l: "min (mx * 2 ^ k) mx = mx" by simp
  have "mx * 1 \<le> (d * 2) * 2 ^ k"
    using big k1 mx0 by (intro mult_mono) simp_all
  then have r: "min (d * 2 ^ Suc k) mx = mx" by (simp add: mult.assoc)
  show ?thesis using big l r by simp
qed

text \<open>
  When \<open>Popen\<close> itself raises in every round, the delay is never reset and the sleeps
  double up to the cap.
\<close>

lemma stream_loop_failures:
  assumes "0 \<le> d" "d \<le> mx"
  shows "stream_loop config rd mx d (replicate n failed_round)
           = map (\<lambda>k. Sleep (min (d * 2 ^ k) mx)) [0..<n]"
  using assms
proof (induction n arbitrary: d)
  case 0
  then show ?case by simp
next
  case (Suc n)
  have d': "0 \<le> min (d * 2) mx" "min (d * 2) mx \<le> mx" using Suc.prems by simp_all
  have "stream_loop config rd mx d (replicate (Suc n) failed_round)
          = Sleep d # stream_loop config rd mx (min (d * 2) mx) (replicate n failed_round)"
    using Suc.prems by (simp add: failed_round_def backoff_def)
  also have "\<dots> = Sleep d # map (\<lambda>k. Sleep (min (min (d * 2) mx * 2 ^ k) mx)) [0..<n]"
    using Suc.IH [OF d'] by simp
  also have "\<dots> = Sleep d # map (\<lambda>k. Sleep (min (d * 2 ^ Suc k) mx)) [0..<n]"
    using min_double_cap [OF Suc.prems] by simp
  also have "\<dots> = map (\<lambda>k. Sleep (min (d * 2 ^ k) mx)) [0..<Suc n]"
    using Suc.prems by (simp add: upt_conv_Cons map_Suc_upt [symmetric] del: upt_Suc)
  finally show ?case .
qed

text \<open>
  When the decoder is spawned in every round and its stream is at end of file, the spawn
  resets the delay each time: whatever the delay was, every sleep is \<open>reconnect_delay\<close>,
  and the doubling after the sleep is overwritten in the next round.
\<close>

lemma inner_loop_eof:
  assumes "0 < StreamConfig.sample_rate config" "1 \<le> window_size_seconds config"
    and "1 \<le> channels config"
  shows "inner_loop config (Some \<lparr>poll = None, stdout = []\<rparr>) [(True, t)] = ([], Left_loop)"
proof -
  have "1 \<le> real_of_int (StreamConfig.sample_rate config)" using assms(1) by simp
  then have "1 * 1 \<le> real_of_int (StreamConfig.sample_rate config) * window_size_seconds config"
    using assms(2) by (intro mult_mono) simp_all
  then have p: "1 \<le> py_int (real_of_int (StreamConfig.sample_rate config) * window_size_seconds config)"
    by (simp add: py_int_def le_floor_iff)
  then have "1 * 1 \<le> py_int (real_of_int (StreamConfig.sample_rate config)
                * window_size_seconds config) * channels config"
    using assms(3) by (intro mult_mono) simp_all
  then have pos: "0 < py_int (real_of_int (StreamConfig.sample_rate config)
                * window_size_seconds config) * channels config"
    by simp
  then have nneg: "\<not> py_int (real_of_int (StreamConfig.sample_rate config)
                * window_size_seconds config) * channels config < 0"
    by simp
  show ?thesis
    using pos nneg by (simp add: read_window_def stdout_read_def Let_def)
qed

lemma stream_loop_eof_rounds:
  assumes "0 < StreamConfig.sample_rate config" "1 \<le> window_size_seconds config"
    and "1 \<le> channels config" and "0 \<le> rd"
  shows "slept (stream_loop config rd mx d (replicate n eof_round)) = replicate n rd"
proof (induction n arbitrary: d)
  case 0
  then show ?case by (simp add: slept_simps)
next
  case (Suc n)
  have "stream_loop config rd mx d (replicate (Suc n) eof_round)
          = Sleep rd # stream_loop config rd mx (min (rd * 2) mx) (replicate n eof_round)"
    using inner_loop_eof [OF assms(1-3), of 0] assms(4)
    by (simp add: eof_round_def backoff_def)
  then show ?case using Suc.IH by (simp add: slept_simps)
qed

text \<open>
  C6. The reset stands after every successful spawn, so the documented exponential backoff
  on stream failures does not happen: with the default delays 5 and 60 and three rounds
  in which ffmpeg starts but delivers nothing, the reader sleeps 5, 5, 5. The doubling
  5, 10, 20 is seen only when \<open>Popen\<close> itself raises three times.
\<close>

theorem stream_windows_no_backoff_on_stream_failure:
  "slept (stream_windows \<lparr>name = ''yard'', url = ''rtsp://cam/1'', sample_rate = 48000,
                           window_size_seconds = 5, channels = 1\<rparr> 5 60
            (replicate 3 eof_round)) = [5, 5, 5]
   \<and> slept (stream_windows \<lparr>name = ''yard'', url = ''rtsp://cam/1'', sample_rate = 48000,
                           window_size_seconds = 5, channels = 1\<rparr> 5 60
            (replicate 3 failed_round)) = [5, 10, 20]"
proof -
  let ?cfg = "\<lparr>name = ''yard'', url = ''rtsp://cam/1'', sample_rate = 48000,
               window_size_seconds = 5, channels = 1\<rparr>"
  have a: "slept (stream_loop ?cfg 5 60 5 (replicate 3 eof_round)) = replicate 3 5"
    by (rule stream_loop_eof_rounds) simp_all
  have u: "[0..<3] = [0, 1, 2 :: nat]" by code_simp
  have "stream_loop ?cfg 5 60 5 (replicate 3 failed_round)
          = map (\<lambda>k. Sleep (min (5 * 2 ^ k) 60)) [0..<3]"
    by (rule stream_loop_failures) simp_all
  then have b: "slept (stream_loop ?cfg 5 60 5 (replicate 3 failed_round)) = [5, 10, 20]"
    unfolding u by (simp add: slept_simps)
  have r: "replicate 3 (5::real) = [5, 5, 5]" by code_simp
  show ?thesis unfolding stream_windows_def using a b r by simp
qed

subsection \<open>The feature extractor\<close>

lemma rms_zeros: "\<forall>x \<in> set zs. x = 0 \<Longrightarrow> rms zs = 0"
proof -
  assume z: "\<forall>x \<in> set zs. x = 0"
  have "sum_list (map (\<lambda>x. x ^ 2) xs) = 0" if "\<forall>x \<in> set xs. x = (0::real)" for xs
    using that by (induction xs) simp_all
  then show ?thesis using z by (simp add: rms_def)
qed

lemma db_floor: "r \<le> default_floor \<Longrightarrow> db_from_rms r default_floor = - 200"
proof -
  assume "r \<le> default_floor"
  then have m: "max r default_floor = 1 / 10 ^ 10" by (simp add: default_floor_def max_def)
  have "log 10 ((10::real) ^ 10) = real 10 * log 10 10"
    by (rule log_nat_power) simp
  then have p: "log 10 ((10::real) ^ 10) = 10" by simp
  have "log 10 (1 / (10::real) ^ 10) = - log 10 (10 ^ 10)"
    by (rule log_recip)
  then have "log 10 (1 / 10 ^ 10) = - 10"
    unfolding p .
  then show ?thesis unfolding db_from_rms_def m by simp
qed

lemma bandpass_filter_ok:
  "rate \<noteq> 0 \<Longrightarrow> \<exists>ys. bandpass_filter f zs rate lo hi ord = Inr ys"
  by (cases "f ord (max (lo / (real_of_int rate / 2)) (1 / 1000))
               (min (hi / (real_of_int rate / 2)) (999 / 1000)) zs")
     (simp_all add: bandpass_filter_def Let_def)

text \<open>
  C9. For an extractor with a nonzero sample rate, every all-zero sample array, the empty
  one included, gets \<open>rms_total_db = -200\<close>: an RMS at or below \<open>1e-10\<close> is floored to
  \<open>1e-10\<close> before \<open>20 * log10\<close> is taken.
\<close>

theorem extract_all_zero:
  assumes "rate \<noteq> 0" and "\<forall>x \<in> set zs. x = 0"
  shows "(\<exists>f. extract sosfilt_butter rate bird_band low_band zs = Inr f
             \<and> rms_total_db f = - 200)
       \<and> (r \<le> default_floor \<longrightarrow> db_from_rms r default_floor = - 200)"
proof -
  obtain b where b: "bandpass_filter sosfilt_butter zs rate
                       (low bird_band) (high bird_band) 4 = Inr b"
    using bandpass_filter_ok [OF assms(1)] by blast
  obtain l where l: "bandpass_filter sosfilt_butter zs rate
                       (low low_band) (high low_band) 4 = Inr l"
    using bandpass_filter_ok [OF assms(1)] by blast
  have "rms zs \<le> default_floor"
    using rms_zeros [OF assms(2)] by (simp add: default_floor_def)
  then have "db_from_rms (rms zs) default_floor = - 200" by (rule db_floor)
  then show ?thesis using db_floor [of r] by (simp add: extract_def Let_def b l)
qed

theorem extract_all_zero_witness:
  "\<exists>f. extract (\<lambda>ord lo hi xs. None) 48000 \<lparr>low = 2000, high = 9000\<rparr> \<lparr>low = 20, high = 500\<rparr>
          [0, 0, 0] = Inr f \<and> rms_total_db f = - 200"
proof -
  have h1: "(48000::int) \<noteq> 0" by simp
  have h2: "\<forall>x \<in> set [0, 0, 0 :: real]. x = 0" by simp
  show ?thesis using extract_all_zero [OF h1 h2] by blast
qed

subsection \<open>The classifier clients: the shape of the result\<close>




















subsection \<open>The classifier clients: failures\<close>









subsection \<open>The classifier clients: species resolution\<close>















subsection \<open>The SQLite window log\<close>













subsection \<open>The JSONL window log: recent windows\<close>







lemma jsonl_log_window_writes_dict:
  "jsonl_log_window fmt ok storage ts stream features dec why dets = (Inr wid, storage') \<Longrightarrow>
   \<exists>d. lines storage' = Some ((case lines storage of None \<Rightarrow> [] | Some ls \<Rightarrow> ls) @ [Some (JObj d)])"
  by (auto simp: jsonl_log_window_def Let_def split: if_splits)



subsection \<open>The window logs: detections of a window\<close>

text \<open>The SQLite backend orders by confidence whatever was logged.\<close>

lemma sqlite_get_detections_sorted:
  "sqlite_get_detections_for_window env db wid = (Inr rows, db') \<Longrightarrow>
   sorted_desc (map d_confidence rows)"
proof -
  assume a: "sqlite_get_detections_for_window env db wid = (Inr rows, db')"
  have s: "sorted_desc (map d_confidence (sort_key (\<lambda>r. - d_confidence r) xs))" for xs
  proof -
    have "sorted (map (\<lambda>r. - d_confidence r) (sort_key (\<lambda>r. - d_confidence r) xs))"
      by (rule sorted_sort_key)
    then show ?thesis by (simp add: sorted_map sorted_desc_def sorted_wrt_map)
  qed
  from a have "rows = sort_key (\<lambda>r. - d_confidence r)
                  (filter (\<lambda>r. d_window_id r = wid) (detections db))"
    by (auto simp: sqlite_get_detections_for_window_def connection_def Let_def
        split: option.splits)
  then show ?thesis using s by simp
qed


end
